theory Spec2Isabelle
  imports Complex_Main
begin

section \<open>JavaScript values\<close>

text \<open>
  The component of \<^verbatim>\<open>src/components/NotionClone.tsx\<close> keeps a list of pages in
  React state and mirrors it to one \<^verbatim>\<open>localStorage\<close> slot. What it reads back from
  that slot is whatever \<^verbatim>\<open>JSON.parse\<close> returns: the cast \<^verbatim>\<open>as Page[]\<close> checks
  nothing, and the code tests the fields itself (\<^verbatim>\<open>page.id || ...\<close>,
  \<^verbatim>\<open>Array.isArray(page.content)\<close>). The fields of a page are therefore JavaScript
  values, not yet strings and arrays.

  A number is a rational (every finite double is one); the code only tests numbers for
  being zero. A property that is absent (\<^verbatim>\<open>undefined\<close>) is \<open>None\<close> of
  \<open>json option\<close>.
\<close>

datatype json =
    JNull
  | JBool bool
  | JNum rat
  | JStr string
  | JArr "json list"
  | JObj "(string \<times> json) list"

text \<open>The exceptions the code can meet inside its \<^verbatim>\<open>try\<close> block.\<close>

datatype exn = SyntaxError | TypeError

text \<open>Truthiness, as \<^verbatim>\<open>||\<close>, \<^verbatim>\<open>!\<close> and \<^verbatim>\<open>if\<close> test it.\<close>

fun truthy :: "json \<Rightarrow> bool" where
  "truthy JNull = False"
| "truthy (JBool b) = b"
| "truthy (JNum n) = (n \<noteq> 0)"
| "truthy (JStr s) = (s \<noteq> [])"
| "truthy (JArr xs) = True"
| "truthy (JObj fs) = True"

fun isArray :: "json \<Rightarrow> bool" where
  "isArray (JArr xs) = True"
| "isArray v = False"

text \<open>
  Property access \<^verbatim>\<open>x.k\<close> for the keys the code reads (\<^verbatim>\<open>id\<close>, \<^verbatim>\<open>title\<close>,
  \<^verbatim>\<open>content\<close>): \<^verbatim>\<open>null\<close> throws a TypeError, an object gives its own property,
  and no other value has a property of these names.
\<close>

fun getProp :: "json \<Rightarrow> string \<Rightarrow> exn + json option" where
  "getProp JNull k = Inl TypeError"
| "getProp (JObj fs) k = Inr (map_of fs k)"
| "getProp v k = Inr None"

text \<open>
  \<^verbatim>\<open>Number.prototype.toString\<close> on the integer that \<^verbatim>\<open>Date.now()\<close> returns: its
  decimal digits, with a sign before 1970.
\<close>

definition digit :: "nat \<Rightarrow> char" where
  "digit d = ''0123456789'' ! d"

fun digits :: "nat \<Rightarrow> string" where
  "digits n = (if n < 10 then [digit n] else digits (n div 10) @ [digit (n mod 10)])"

definition toString :: "int \<Rightarrow> string" where
  "toString i = (if i < 0 then CHR ''-'' # digits (nat (- i)) else digits (nat i))"

section \<open>Pages and the state of the component\<close>

text \<open>
  \<^verbatim>\<open>type Page = { id: string; title: string; content: Block[] }\<close>. The field
  \<^verbatim>\<open>id\<close> is \<open>pid\<close> here (\<open>id\<close> is the identity function of HOL).

  Strict equality \<^verbatim>\<open>===\<close> on ids is HOL equality. The two agree on strings, numbers,
  booleans and \<^verbatim>\<open>null\<close>. JavaScript compares an array or an object by reference; an
  id can be one only when a persisted record had such an id, which the declared type
  excludes, and the model then identifies two ids of the same structure.
\<close>

record page =
  pid :: json
  title :: json
  content :: json

text \<open>
  The state: the four \<^verbatim>\<open>useState\<close> cells, the ref \<^verbatim>\<open>isLoading\<close>, the storage slot
  under \<^verbatim>\<open>STORAGE_KEY\<close> (\<open>None\<close> when \<^verbatim>\<open>getItem\<close> returns \<^verbatim>\<open>null\<close>) and what
  \<^verbatim>\<open>console.error\<close> has printed. \<open>pagesChanged\<close> records that \<^verbatim>\<open>setPages\<close> was
  called with a new array since the last render, which is what React compares to decide
  whether the effect depending on \<^verbatim>\<open>pages\<close> runs again.
\<close>

record state =
  pages :: "page list"
  currentPageId :: "json option"
  sidebarOpen :: bool
  isMobile :: bool
  isLoading :: bool
  localStorage :: "string option"
  console :: "(string \<times> exn) list"
  pagesChanged :: bool

text \<open>
  The two functions of the platform that the component calls on the slot's text.
  \<open>JSON_parse\<close> is \<open>None\<close> where \<^verbatim>\<open>JSON.parse\<close> throws a SyntaxError.
\<close>

record platform =
  JSON_parse :: "string \<Rightarrow> json option"
  JSON_stringify :: "page list \<Rightarrow> string"

definition setPages :: "page list \<Rightarrow> state \<Rightarrow> state" where
  "setPages ps s = s\<lparr>pages := ps, pagesChanged := True\<rparr>"

definition setCurrentPageId :: "json option \<Rightarrow> state \<Rightarrow> state" where
  "setCurrentPageId i s = s\<lparr>currentPageId := i\<rparr>"

definition setSidebarOpen :: "bool \<Rightarrow> state \<Rightarrow> state" where
  "setSidebarOpen b s = s\<lparr>sidebarOpen := b\<rparr>"

definition console_error :: "string \<times> exn \<Rightarrow> state \<Rightarrow> state" where
  "console_error m s = s\<lparr>console := console s @ [m]\<rparr>"

text \<open>\<^verbatim>\<open>!currentPageId\<close>: no page is selected, or the id is a falsy value.\<close>

definition selected :: "state \<Rightarrow> bool" where
  "selected s = (case currentPageId s of None \<Rightarrow> False | Some i \<Rightarrow> truthy i)"

section \<open>Persistence\<close>

text \<open>
  Lines 76 to 80: nothing is written for an empty collection. The write itself is taken
  to succeed; the code does not handle a failing \<^verbatim>\<open>setItem\<close>.
\<close>

definition saveToLocalStorage :: "platform \<Rightarrow> page list \<Rightarrow> state \<Rightarrow> state" where
  "saveToLocalStorage env pagesToSave s =
     (if length pagesToSave > 0
      then s\<lparr>localStorage := Some (JSON_stringify env pagesToSave)\<rparr>
      else s)"

text \<open>
  Lines 111 to 114, \<^verbatim>\<open>useEffect(() => saveToLocalStorage(pages), [pages, ...])\<close>: after
  a render in which \<^verbatim>\<open>pages\<close> is a new array, the collection is saved.
\<close>

definition commit :: "platform \<Rightarrow> state \<Rightarrow> state" where
  "commit env s =
     (if pagesChanged s
      then saveToLocalStorage env (pages s) (s\<lparr>pagesChanged := False\<rparr>)
      else s)"

section \<open>Creating pages and loading\<close>

text \<open>Lines 165 to 171. \<open>now\<close> is what \<^verbatim>\<open>Date.now()\<close> returns at the call.\<close>

definition createNewPage :: "int \<Rightarrow> string \<Rightarrow> page" where
  "createNewPage now t =
     \<lparr>pid = JStr (toString now),
      title = JStr (if t = [] then ''Untitled'' else t),
      content = JArr []\<rparr>"

text \<open>
  Lines 90 to 94, the callback of \<^verbatim>\<open>parsedPages.map\<close>. \<^verbatim>\<open>Date.now()\<close> is only
  called when the id is falsy; \<open>now\<close> is what it returns then.
\<close>

definition validatePage :: "int \<Rightarrow> json \<Rightarrow> exn + page" where
  "validatePage now x =
     (case getProp x ''id'' of
        Inl e \<Rightarrow> Inl e
      | Inr i \<Rightarrow>
          (case getProp x ''title'' of
             Inl e \<Rightarrow> Inl e
           | Inr t \<Rightarrow>
               (case getProp x ''content'' of
                  Inl e \<Rightarrow> Inl e
                | Inr c \<Rightarrow>
                    Inr \<lparr>pid = (case i of Some v \<Rightarrow> if truthy v then v else JStr (toString now)
                                 | None \<Rightarrow> JStr (toString now)),
                         title = (case t of Some v \<Rightarrow> if truthy v then v else JStr ''Untitled''
                                  | None \<Rightarrow> JStr ''Untitled''),
                         content = (case c of Some v \<Rightarrow> if isArray v then v else JArr []
                                    | None \<Rightarrow> JArr [])\<rparr>)))"

text \<open>
  The \<^verbatim>\<open>map\<close> itself. \<open>clk k\<close> is the clock reading while the record at index \<open>k\<close>
  is processed. An exception of the callback ends the map.
\<close>

fun validatedPages :: "(nat \<Rightarrow> int) \<Rightarrow> nat \<Rightarrow> json list \<Rightarrow> exn + page list" where
  "validatedPages clk k [] = Inr []"
| "validatedPages clk k (x # xs) =
     (case validatePage (clk k) x of
        Inl e \<Rightarrow> Inl e
      | Inr p \<Rightarrow>
          (case validatedPages clk (Suc k) xs of
             Inl e \<Rightarrow> Inl e
           | Inr ps \<Rightarrow> Inr (p # ps)))"

text \<open>
  Lines 87 to 99, the body of the \<^verbatim>\<open>try\<close>: \<open>Inl\<close> an exception, \<open>Inr (Some s)\<close>
  the \<^verbatim>\<open>return\<close> of line 98, \<open>Inr None\<close> when the block ends without returning.
  Line 97 reads the id of the first page; on an empty list that would be a TypeError,
  but the list has the length of \<^verbatim>\<open>parsedPages\<close>, which is not empty here.
\<close>

definition load_try ::
  "platform \<Rightarrow> (nat \<Rightarrow> int) \<Rightarrow> string \<Rightarrow> state \<Rightarrow> exn + state option" where
  "load_try env clk savedPages s =
     (case JSON_parse env savedPages of
        None \<Rightarrow> Inl SyntaxError
      | Some parsedPages \<Rightarrow>
          (case parsedPages of
             JArr xs \<Rightarrow>
               if length xs > 0
               then (case validatedPages clk 0 xs of
                       Inl e \<Rightarrow> Inl e
                     | Inr ps \<Rightarrow>
                         (case ps of
                            [] \<Rightarrow> Inl TypeError
                          | p # _ \<Rightarrow> Inr (Some (setCurrentPageId (Some (pid p)) (setPages ps s)))))
               else Inr None
           | _ \<Rightarrow> Inr None))"

text \<open>Lines 105 to 108, the default page.\<close>

definition createDefault :: "int \<Rightarrow> state \<Rightarrow> state" where
  "createDefault now s =
     (let newPage = createNewPage now ''Getting Started''
      in setCurrentPageId (Some (pid newPage)) (setPages [newPage] s))"

text \<open>
  Lines 83 to 109, the effect that runs once after the first render. \<open>now\<close> is the
  clock reading when the default page is created.
\<close>

definition load :: "platform \<Rightarrow> (nat \<Rightarrow> int) \<Rightarrow> int \<Rightarrow> state \<Rightarrow> state" where
  "load env clk now s =
     (case localStorage s of
        None \<Rightarrow> createDefault now s
      | Some savedPages \<Rightarrow>
          if savedPages = [] then createDefault now s
          else (case load_try env clk savedPages s of
                  Inr (Some s') \<Rightarrow> s'
                | Inr None \<Rightarrow> createDefault now s
                | Inl e \<Rightarrow> createDefault now (console_error (''Failed to parse saved pages'', e) s)))"

section \<open>The handlers\<close>

text \<open>
  A handler reads \<^verbatim>\<open>pages\<close> and \<^verbatim>\<open>currentPageId\<close> of the render it was created in,
  the state \<open>s\<close> it is applied to; an updater passed to \<^verbatim>\<open>setPages\<close> gets the same
  list, no other update being queued.
\<close>

text \<open>Lines 117 to 130.\<close>

definition handleEditorContentChange :: "json list \<Rightarrow> state \<Rightarrow> state" where
  "handleEditorContentChange updatedContent s =
     (if \<not> selected s \<or> isLoading s then s
      else setPages
             (map (\<lambda>p. if Some (pid p) = currentPageId s
                        then p\<lparr>content := JArr updatedContent\<rparr> else p)
                  (pages s)) s)"

text \<open>Lines 134 to 138, the listener of \<^verbatim>\<open>blur\<close> and \<^verbatim>\<open>beforeunload\<close>.\<close>

definition saveCurrentPage :: "platform \<Rightarrow> state \<Rightarrow> state" where
  "saveCurrentPage env s =
     (if selected s \<and> \<not> isLoading s then saveToLocalStorage env (pages s) s else s)"

text \<open>Lines 152 to 157, with \<^verbatim>\<open>window.innerWidth\<close> as \<open>w\<close>.\<close>

definition checkIfMobile :: "int \<Rightarrow> state \<Rightarrow> state" where
  "checkIfMobile w s =
     (let s1 = s\<lparr>isMobile := (w < 768)\<rparr>
      in if w < 768 then setSidebarOpen False s1 else s1)"

text \<open>Lines 174 to 184.\<close>

definition addNewPage :: "int \<Rightarrow> state \<Rightarrow> state" where
  "addNewPage now s =
     (let newPage = createNewPage now ''Untitled'';
          s1 = setPages (pages s @ [newPage]) s;
          s2 = setCurrentPageId (Some (pid newPage)) s1
      in if isMobile s then setSidebarOpen False s2 else s2)"

text \<open>
  Lines 187 to 200. Releasing the focus (lines 189 to 191) changes no state of the
  model: a title update it may queue is overwritten by \<^verbatim>\<open>setPages(updatedPages)\<close>.
\<close>

definition deletePage :: "platform \<Rightarrow> json \<Rightarrow> state \<Rightarrow> state" where
  "deletePage env pageId s =
     (let updatedPages = filter (\<lambda>p. pid p \<noteq> pageId) (pages s);
          s1 = setPages updatedPages s;
          s2 = saveToLocalStorage env updatedPages s1
      in if currentPageId s = Some pageId
         then setCurrentPageId
                (case updatedPages of [] \<Rightarrow> None | p # _ \<Rightarrow> Some (pid p)) s2
         else s2)"

text \<open>Lines 203 to 211.\<close>

definition updatePageTitle :: "json \<Rightarrow> string \<Rightarrow> state \<Rightarrow> state" where
  "updatePageTitle pageId newTitle s =
     (if \<not> truthy pageId then s
      else setPages
             (map (\<lambda>p. if pid p = pageId
                        then p\<lparr>title := JStr (if newTitle = [] then ''Untitled'' else newTitle)\<rparr>
                        else p)
                  (pages s)) s)"

text \<open>Lines 214 to 218, with \<^verbatim>\<open>e.target.value\<close> as \<open>v\<close>.\<close>

definition handleTitleBlur :: "string \<Rightarrow> state \<Rightarrow> state" where
  "handleTitleBlur v s =
     (case currentPageId s of
        None \<Rightarrow> s
      | Some i \<Rightarrow>
          if truthy i then updatePageTitle i (if v = [] then ''Untitled'' else v) s else s)"

text \<open>
  Lines 233 to 250 of \<^verbatim>\<open>handlePageSwitch\<close>: the content of the selected page is
  written back into the collection and the collection is saved, by the updater itself.
\<close>

definition flushCurrent :: "platform \<Rightarrow> state \<Rightarrow> state" where
  "flushCurrent env s =
     (if selected s \<and> \<not> isLoading s
      then (let updatedContent =
                  (case find (\<lambda>p. Some (pid p) = currentPageId s) (pages s) of
                     None \<Rightarrow> JArr []
                   | Some p \<Rightarrow> if truthy (content p) then content p else JArr []);
                updatedPages =
                  map (\<lambda>p. if Some (pid p) = currentPageId s
                            then p\<lparr>content := updatedContent\<rparr> else p)
                      (pages s)
            in saveToLocalStorage env updatedPages (setPages updatedPages s))
      else s)"

text \<open>Lines 229 to 258.\<close>

definition handlePageSwitch :: "platform \<Rightarrow> json \<Rightarrow> state \<Rightarrow> state" where
  "handlePageSwitch env pageId s =
     (if Some pageId = currentPageId s then s
      else (let s1 = flushCurrent env s;
                s2 = setCurrentPageId (Some pageId) s1
            in if isMobile s then setSidebarOpen False s2 else s2))"

section \<open>Events\<close>

text \<open>
  What the user and the editor can do to the mounted component. After a handler has
  run React renders again, and the effect of lines 111 to 114 runs when the handler
  called \<^verbatim>\<open>setPages\<close>: that is \<open>commit\<close>.
\<close>

datatype event =
    AddNewPage int
  | DeletePage json
  | UpdatePageTitle json string
  | TitleBlur string
  | EditorContentChange "json list"
  | PageSwitch json
  | WindowBlur

fun handler :: "platform \<Rightarrow> event \<Rightarrow> state \<Rightarrow> state" where
  "handler env (AddNewPage now) s = addNewPage now s"
| "handler env (DeletePage i) s = deletePage env i s"
| "handler env (UpdatePageTitle i t) s = updatePageTitle i t s"
| "handler env (TitleBlur v) s = handleTitleBlur v s"
| "handler env (EditorContentChange c) s = handleEditorContentChange c s"
| "handler env (PageSwitch i) s = handlePageSwitch env i s"
| "handler env WindowBlur s = saveCurrentPage env s"

definition dispatch :: "platform \<Rightarrow> event \<Rightarrow> state \<Rightarrow> state" where
  "dispatch env e s = commit env (handler env e s)"

fun run :: "platform \<Rightarrow> event list \<Rightarrow> state \<Rightarrow> state" where
  "run env [] s = s"
| "run env (e # es) s = run env es (dispatch env e s)"

text \<open>
  Mounting. The first render has the initial values of lines 64 to 67 and 73. Its
  effects run in the order of the source: the load (lines 83 to 109), the save of
  lines 111 to 114 with the \<^verbatim>\<open>pages\<close> of the first render, which is empty, and the
  mobile check. Then the updates of the load are rendered and committed.
\<close>

definition initial :: "string option \<Rightarrow> state" where
  "initial slot =
     \<lparr>pages = [], currentPageId = None, sidebarOpen = True, isMobile = False,
      isLoading = False, localStorage = slot, console = [], pagesChanged = False\<rparr>"

definition mount :: "platform \<Rightarrow> (nat \<Rightarrow> int) \<Rightarrow> int \<Rightarrow> int \<Rightarrow> string option \<Rightarrow> state" where
  "mount env clk now w slot =
     (let s0 = initial slot;
          s1 = load env clk now s0;
          s2 = saveToLocalStorage env (pages s0) s1;
          s3 = checkIfMobile w s2
      in commit env s3)"

section \<open>Invariants of the collection\<close>

text \<open>
  An id is non-empty when it is truthy, the test the code itself applies to ids: for a
  string, when it is not the empty string.
\<close>

definition idsNonEmpty :: "page list \<Rightarrow> bool" where
  "idsNonEmpty ps = list_all (\<lambda>p. truthy (pid p)) ps"

definition idsUnique :: "page list \<Rightarrow> bool" where
  "idsUnique ps = distinct (map pid ps)"

definition contentIsArray :: "page list \<Rightarrow> bool" where
  "contentIsArray ps = list_all (\<lambda>p. isArray (content p)) ps"

text \<open>
  What holds of the state after mounting and after every event: the ref
  \<^verbatim>\<open>isLoading\<close> is \<^verbatim>\<open>false\<close> (line 73 initialises it and nothing assigns it), the
  last render is committed, every page has a non-empty id, a non-empty title and an
  array as content.
\<close>

definition wellFormed :: "state \<Rightarrow> bool" where
  "wellFormed s =
     (\<not> isLoading s \<and> \<not> pagesChanged s \<and>
      list_all (\<lambda>p. truthy (pid p) \<and> truthy (title p) \<and> isArray (content p)) (pages s))"

text \<open>
  A sequence of events creates fresh ids when the timestamp of every page it adds is
  not yet the id of a page of the collection at that moment.
\<close>

fun freshIds :: "platform \<Rightarrow> event list \<Rightarrow> state \<Rightarrow> bool" where
  "freshIds env [] s = True"
| "freshIds env (e # es) s =
     ((case e of
         AddNewPage now \<Rightarrow> JStr (toString now) \<notin> set (map pid (pages s))
       | _ \<Rightarrow> True) \<and>
      freshIds env es (dispatch env e s))"

section \<open>A platform for the examples\<close>

text \<open>
  The theorems below hold for every platform. Their examples run on this one. It
  parses the texts listed, each to what \<^verbatim>\<open>JSON.parse\<close> gives for it, and no other
  text; it prints a page as \<^verbatim>\<open>JSON.stringify\<close> does when the strings need no
  escaping and the numbers are integers.
\<close>

fun commas :: "string list \<Rightarrow> string" where
  "commas [] = []"
| "commas [x] = x"
| "commas (x # xs) = x @ CHR '','' # commas xs"

fun show_json :: "json \<Rightarrow> string" where
  "show_json JNull = ''null''"
| "show_json (JBool b) = (if b then ''true'' else ''false'')"
| "show_json (JNum n) = toString \<lfloor>n\<rfloor>"
| "show_json (JStr t) = CHR 0x22 # t @ [CHR 0x22]"
| "show_json (JArr xs) = CHR ''['' # commas (map show_json xs) @ '']''"
| "show_json (JObj fs) =
     CHR ''{'' # commas (map (\<lambda>(k, v). CHR 0x22 # k @ CHR 0x22 # CHR '':'' # show_json v) fs) @ ''}''"

definition show_page :: "page \<Rightarrow> string" where
  "show_page p =
     show_json (JObj [(''id'', pid p), (''title'', title p), (''content'', content p)])"

definition example_parse :: "string \<Rightarrow> json option" where
  "example_parse t =
     (if t = ''[]'' then Some (JArr [])
      else if t = ''{}'' then Some (JObj [])
      else if t = ''[null]'' then Some (JArr [JNull])
      else if t = ''[{},{}]'' then Some (JArr [JObj [], JObj []])
      else if t = ''[{\"id\":\"7\",\"title\":\"Notes\",\"content\":[]},null]''
        then Some (JArr [JObj [(''id'', JStr ''7''), (''title'', JStr ''Notes''),
                               (''content'', JArr [])],
                         JNull])
      else if t = ''[{\"id\":\"7\"},{\"id\":\"7\"}]''
        then Some (JArr [JObj [(''id'', JStr ''7'')], JObj [(''id'', JStr ''7'')]])
      else if t = ''[{\"title\":\"\"},{\"id\":\"7\",\"title\":\"Notes\",\"content\":[]}]''
        then Some (JArr [JObj [(''title'', JStr '''')],
                         JObj [(''id'', JStr ''7''), (''title'', JStr ''Notes''),
                               (''content'', JArr [])]])
      else None)"

definition example :: platform where
  "example =
     \<lparr>JSON_parse = example_parse,
      JSON_stringify = (\<lambda>ps. CHR ''['' # commas (map show_page ps) @ '']'')\<rparr>"

section \<open>Facts about the state operations\<close>

lemmas state_defs = setPages_def setCurrentPageId_def setSidebarOpen_def console_error_def
  saveToLocalStorage_def commit_def

lemma digits_nonempty: "digits n \<noteq> []"
  by (subst digits.simps) simp

lemma toString_nonempty: "toString i \<noteq> []"
  by (simp add: toString_def digits_nonempty)

lemma pages_commit [simp]: "pages (commit env s) = pages s"
  by (simp add: state_defs)

lemma currentPageId_commit [simp]: "currentPageId (commit env s) = currentPageId s"
  by (simp add: state_defs)

lemma isLoading_commit [simp]: "isLoading (commit env s) = isLoading s"
  by (simp add: state_defs)

lemma pagesChanged_commit [simp]: "\<not> pagesChanged (commit env s)"
  by (simp add: state_defs)

lemma commit_quiescent: "\<not> pagesChanged s \<Longrightarrow> commit env s = s"
  by (simp add: commit_def)

lemma localStorage_commit:
  "localStorage (commit env s) =
     (if pagesChanged s \<and> pages s \<noteq> [] then Some (JSON_stringify env (pages s))
      else localStorage s)"
  by (simp add: state_defs)

subsection \<open>deletePage\<close>

lemma pages_deletePage [simp]:
  "pages (deletePage env i s) = filter (\<lambda>p. pid p \<noteq> i) (pages s)"
  by (simp add: deletePage_def state_defs Let_def)

lemma currentPageId_deletePage:
  "currentPageId (deletePage env i s) =
     (if currentPageId s = Some i
      then (case filter (\<lambda>p. pid p \<noteq> i) (pages s) of [] \<Rightarrow> None | p # _ \<Rightarrow> Some (pid p))
      else currentPageId s)"
  by (simp add: deletePage_def state_defs Let_def)

lemma localStorage_deletePage:
  "localStorage (deletePage env i s) =
     (if filter (\<lambda>p. pid p \<noteq> i) (pages s) = [] then localStorage s
      else Some (JSON_stringify env (filter (\<lambda>p. pid p \<noteq> i) (pages s))))"
  by (simp add: deletePage_def state_defs Let_def)

section \<open>The persistence rule for the empty collection\<close>

text \<open>
  C4. \<open>saveToLocalStorage\<close> changes nothing when the list it is given is empty,
  whatever the slot holds. So when deleting a page leaves no page, the slot keeps what
  it held, both when the handler returns and after the render that follows: the
  collection saved before is not overwritten.
\<close>

theorem saveToLocalStorage_empty_noop:
  "saveToLocalStorage env [] s = s \<and>
   (filter (\<lambda>p. pid p \<noteq> i) (pages s) = [] \<longrightarrow>
      pages (dispatch env (DeletePage i) s) = [] \<and>
      localStorage (deletePage env i s) = localStorage s \<and>
      localStorage (dispatch env (DeletePage i) s) = localStorage s)"
  by (simp add: saveToLocalStorage_def dispatch_def localStorage_commit localStorage_deletePage)

text \<open>
  The only page, saved in the slot, is deleted: the collection is empty and the slot
  still holds the one-page collection.
\<close>

theorem saveToLocalStorage_empty_noop_witness:
  "(let p = createNewPage 42 ''Notes'';
        s = (initial (Some (JSON_stringify example [p])))
              \<lparr>pages := [p], currentPageId := Some (pid p)\<rparr>
    in filter (\<lambda>q. pid q \<noteq> pid p) (pages s) = [] \<and>
       pages (dispatch example (DeletePage (pid p)) s) = [] \<and>
       localStorage (dispatch example (DeletePage (pid p)) s) =
         Some (JSON_stringify example [p]))"
  using saveToLocalStorage_empty_noop
    [of example "(initial (Some (JSON_stringify example [createNewPage 42 ''Notes''])))
        \<lparr>pages := [createNewPage 42 ''Notes''],
         currentPageId := Some (pid (createNewPage 42 ''Notes''))\<rparr>"
        "pid (createNewPage 42 ''Notes'')"]
  by (simp add: Let_def initial_def)

lemma filter_unique_id:
  assumes "distinct (map pid (xs @ p # ys))"
  shows "filter (\<lambda>q. pid q \<noteq> pid p) (xs @ p # ys) = xs @ ys"
proof -
  from assms have "\<forall>q \<in> set xs. pid q \<noteq> pid p" and "\<forall>q \<in> set ys. pid q \<noteq> pid p"
    by (auto simp: image_iff)
  then have "filter (\<lambda>q. pid q \<noteq> pid p) xs = xs" and "filter (\<lambda>q. pid q \<noteq> pid p) ys = ys"
    by (simp_all add: filter_id_conv)
  then show ?thesis by simp
qed

subsection \<open>handleEditorContentChange\<close>

lemma pages_handleEditorContentChange:
  "pages (handleEditorContentChange c s) =
     (if \<not> selected s \<or> isLoading s then pages s
      else map (\<lambda>p. if Some (pid p) = currentPageId s then p\<lparr>content := JArr c\<rparr> else p)
             (pages s))"
  by (simp add: handleEditorContentChange_def state_defs)

lemma currentPageId_handleEditorContentChange [simp]:
  "currentPageId (handleEditorContentChange c s) = currentPageId s"
  by (simp add: handleEditorContentChange_def state_defs)

lemma handleEditorContentChange_guard:
  "currentPageId s = None \<or> isLoading s \<Longrightarrow> handleEditorContentChange c s = s"
  by (auto simp: handleEditorContentChange_def selected_def)

subsection \<open>updatePageTitle\<close>

lemma pages_updatePageTitle:
  "pages (updatePageTitle i t s) =
     (if \<not> truthy i then pages s
      else map (\<lambda>p. if pid p = i
                     then p\<lparr>title := JStr (if t = [] then ''Untitled'' else t)\<rparr> else p)
             (pages s))"
  by (simp add: updatePageTitle_def state_defs)

lemma find_map_same_id:
  "(\<And>q. pid (f q) = pid q) \<Longrightarrow>
   find (\<lambda>q. pid q = i) (map (\<lambda>q. if pid q = i then f q else q) xs) =
     map_option f (find (\<lambda>q. pid q = i) xs)"
  by (induction xs) auto

section \<open>Deleting a page\<close>

text \<open>
  C7. After \<open>deletePage i\<close> the collection is the pages whose id is not \<open>i\<close>, in
  their order; when ids are unique that is the collection with exactly the one page of
  id \<open>i\<close> taken out. If the page deleted was the selected one, the first page that
  remains is selected, and none if no page remains; otherwise the selection is as it
  was.
\<close>

theorem deletePage_removes_and_reselects:
  "pages (dispatch env (DeletePage i) s) = filter (\<lambda>p. pid p \<noteq> i) (pages s) \<and>
   (idsUnique (pages s) \<longrightarrow>
      (\<forall>p \<in> set (pages s). pid p = i \<longrightarrow>
         (\<exists>xs ys. pages s = xs @ p # ys \<and> pages (dispatch env (DeletePage i) s) = xs @ ys))) \<and>
   (currentPageId s = Some i \<longrightarrow>
      (\<forall>p ps. filter (\<lambda>p. pid p \<noteq> i) (pages s) = p # ps \<longrightarrow>
         currentPageId (dispatch env (DeletePage i) s) = Some (pid p)) \<and>
      (filter (\<lambda>p. pid p \<noteq> i) (pages s) = [] \<longrightarrow>
         currentPageId (dispatch env (DeletePage i) s) = None)) \<and>
   (currentPageId s \<noteq> Some i \<longrightarrow>
      currentPageId (dispatch env (DeletePage i) s) = currentPageId s)"
proof -
  have exact: "\<exists>xs ys. pages s = xs @ p # ys \<and> filter (\<lambda>q. pid q \<noteq> i) (pages s) = xs @ ys"
    if u: "idsUnique (pages s)" and p: "p \<in> set (pages s)" and i: "pid p = i" for p
  proof -
    from p obtain xs ys where split: "pages s = xs @ p # ys"
      by (auto dest: split_list)
    with u have "distinct (map pid (xs @ p # ys))"
      by (simp add: idsUnique_def)
    then have "filter (\<lambda>q. pid q \<noteq> pid p) (xs @ p # ys) = xs @ ys"
      by (rule filter_unique_id)
    with split i show ?thesis by auto
  qed
  show ?thesis
    using exact by (auto simp: dispatch_def currentPageId_deletePage)
qed

text \<open>
  Three pages with ids 1, 2 and 3, the second selected. Deleting the second leaves the
  first and third and selects the first; deleting the third leaves the selection alone.
\<close>

theorem deletePage_removes_and_reselects_witness:
  "(let s = (initial None)\<lparr>pages := [createNewPage 1 ''a'', createNewPage 2 ''b'', createNewPage 3 ''c''],
                             currentPageId := Some (JStr ''2'')\<rparr>
    in idsUnique (pages s) \<and> createNewPage 2 ''b'' \<in> set (pages s) \<and>
       pages (dispatch example (DeletePage (JStr ''2'')) s) = [createNewPage 1 ''a'', createNewPage 3 ''c''] \<and>
       currentPageId (dispatch example (DeletePage (JStr ''2'')) s) = Some (JStr ''1'') \<and>
       currentPageId (dispatch example (DeletePage (JStr ''3'')) s) = Some (JStr ''2''))"
  using deletePage_removes_and_reselects
    [of example "JStr ''2''" "(initial None)\<lparr>pages := [createNewPage 1 ''a'', createNewPage 2 ''b'', createNewPage 3 ''c''],
                             currentPageId := Some (JStr ''2'')\<rparr>"]
    deletePage_removes_and_reselects
    [of example "JStr ''3''" "(initial None)\<lparr>pages := [createNewPage 1 ''a'', createNewPage 2 ''b'', createNewPage 3 ''c''],
                             currentPageId := Some (JStr ''2'')\<rparr>"]
  by (simp add: Let_def initial_def createNewPage_def toString_def digit_def idsUnique_def)

section \<open>Editing the content\<close>

text \<open>
  C10. \<open>handleEditorContentChange\<close> leaves the ids, the titles and the order of the
  pages, the selection and every other cell of the state as they were; a page whose id
  is not the selected id is unchanged, and a page whose id is the selected id differs
  from what it was in its content at most. When no page is selected or the ref
  \<^verbatim>\<open>isLoading\<close> is set, the handler returns the state it was given, and so does the
  event when no render was pending.
\<close>

theorem handleEditorContentChange_frame:
  "map pid (pages (handleEditorContentChange c s)) = map pid (pages s) \<and>
   map title (pages (handleEditorContentChange c s)) = map title (pages s) \<and>
   currentPageId (handleEditorContentChange c s) = currentPageId s \<and>
   sidebarOpen (handleEditorContentChange c s) = sidebarOpen s \<and>
   isMobile (handleEditorContentChange c s) = isMobile s \<and>
   isLoading (handleEditorContentChange c s) = isLoading s \<and>
   localStorage (handleEditorContentChange c s) = localStorage s \<and>
   console (handleEditorContentChange c s) = console s \<and>
   (\<forall>k < length (pages s).
      pages (handleEditorContentChange c s) ! k =
        (if Some (pid (pages s ! k)) = currentPageId s
         then (pages s ! k)\<lparr>content := content (pages (handleEditorContentChange c s) ! k)\<rparr>
         else pages s ! k)) \<and>
   pages (dispatch env (EditorContentChange c) s) = pages (handleEditorContentChange c s) \<and>
   currentPageId (dispatch env (EditorContentChange c) s) = currentPageId s \<and>
   (currentPageId s = None \<or> isLoading s \<longrightarrow>
      handleEditorContentChange c s = s \<and>
      (\<not> pagesChanged s \<longrightarrow> dispatch env (EditorContentChange c) s = s))"
proof -
  have "handleEditorContentChange c s = s" if "currentPageId s = None \<or> isLoading s"
    using that by (rule handleEditorContentChange_guard)
  then show ?thesis
    by (auto simp: dispatch_def commit_quiescent pages_handleEditorContentChange)
       (simp_all add: handleEditorContentChange_def state_defs)
qed

text \<open>
  Two pages, the first selected: the edit changes the content of the first and leaves
  the second as it was. With no page selected nothing changes.
\<close>

theorem handleEditorContentChange_frame_witness:
  "(let s = (initial None)\<lparr>pages := [createNewPage 1 ''a'', createNewPage 2 ''b''],
                             currentPageId := Some (JStr ''1'')\<rparr>;
        s' = handleEditorContentChange [JStr ''block''] s
    in (1::nat) < length (pages s) \<and> pages s' ! 1 = pages s ! 1 \<and>
       pages s' ! 0 = (pages s ! 0)\<lparr>content := JArr [JStr ''block'']\<rparr> \<and>
       currentPageId (initial None) = None \<and> \<not> pagesChanged (initial None) \<and>
       dispatch example (EditorContentChange [JStr ''block'']) (initial None) = initial None)"
  using handleEditorContentChange_frame
    [of "[JStr ''block'']" "(initial None)\<lparr>pages := [createNewPage 1 ''a'', createNewPage 2 ''b''],
                             currentPageId := Some (JStr ''1'')\<rparr>" example]
    handleEditorContentChange_frame [of "[JStr ''block'']" "initial None" example]
  by (simp add: Let_def initial_def createNewPage_def toString_def digit_def
        pages_handleEditorContentChange selected_def)

section \<open>Renaming a page\<close>

text \<open>
  C6. For a page of non-empty id \<open>i\<close> in the collection, \<open>updatePageTitle i t\<close>
  makes the title of that page \<open>t\<close> when \<open>t\<close> is not empty and \<^verbatim>\<open>"Untitled"\<close> when
  it is: reading the page of id \<open>i\<close> afterwards gives the page with that title and
  nothing else changed. Line 204, \<^verbatim>\<open>if (!pageId) return\<close>, returns at once for an
  empty id; no page has one in a state the component reaches (\<open>wellFormed_reachable\<close>).
\<close>

theorem updatePageTitle_replaces_title:
  assumes "truthy i" and "find (\<lambda>q. pid q = i) (pages s) = Some p"
  shows "find (\<lambda>q. pid q = i) (pages (dispatch env (UpdatePageTitle i t) s)) =
           Some (p\<lparr>title := JStr (if t = [] then ''Untitled'' else t)\<rparr>) \<and>
         find (\<lambda>q. pid q = i) (pages (dispatch env (UpdatePageTitle i []) s)) =
           Some (p\<lparr>title := JStr ''Untitled''\<rparr>)"
proof -
  have "find (\<lambda>q. pid q = i) (pages (updatePageTitle i u s)) =
          Some (p\<lparr>title := JStr (if u = [] then ''Untitled'' else u)\<rparr>)" for u
    using assms by (simp add: pages_updatePageTitle find_map_same_id)
  from this [of t] this [of "[]"] show ?thesis
    by (simp add: dispatch_def)
qed

theorem updatePageTitle_replaces_title_witness:
  "(let s = (initial None)\<lparr>pages := [createNewPage 1 ''a'', createNewPage 2 ''b''],
                             currentPageId := Some (JStr ''1'')\<rparr>
    in truthy (JStr ''2'') \<and>
       find (\<lambda>q. pid q = JStr ''2'') (pages s) = Some (createNewPage 2 ''b'') \<and>
       find (\<lambda>q. pid q = JStr ''2'') (pages (dispatch example (UpdatePageTitle (JStr ''2'') ''Notes'') s)) =
         Some (createNewPage 2 ''Notes'') \<and>
       find (\<lambda>q. pid q = JStr ''2'') (pages (dispatch example (UpdatePageTitle (JStr ''2'') '''') s)) =
         Some (createNewPage 2 ''Untitled''))"
  using updatePageTitle_replaces_title
    [of "JStr ''2''" "(initial None)\<lparr>pages := [createNewPage 1 ''a'', createNewPage 2 ''b''],
                             currentPageId := Some (JStr ''1'')\<rparr>" "createNewPage 2 ''b''" example "''Notes''"]
  by (simp add: Let_def initial_def createNewPage_def toString_def digit_def)

section \<open>What loading and the handlers preserve\<close>

lemma truthy_isArray: "isArray v \<Longrightarrow> truthy v"
  by (cases v) simp_all

lemma createNewPage_fields [simp]:
  "pid (createNewPage now t) = JStr (toString now)"
  "title (createNewPage now t) = JStr (if t = [] then ''Untitled'' else t)"
  "content (createNewPage now t) = JArr []"
  by (simp_all add: createNewPage_def)

lemma truthy_pid_createNewPage: "truthy (pid (createNewPage now t))"
  by (simp add: toString_nonempty)

lemma truthy_title_createNewPage: "truthy (title (createNewPage now t))"
  by simp

text \<open>A record that the callback of the map accepts comes out with all three fields set.\<close>

lemma validatePage_fields:
  assumes "validatePage now x = Inr p"
  shows "truthy (pid p) \<and> truthy (title p) \<and> isArray (content p)"
proof -
  from assms obtain i t c where
    p: "p = \<lparr>pid = (case i of Some v \<Rightarrow> if truthy v then v else JStr (toString now)
                     | None \<Rightarrow> JStr (toString now)),
             title = (case t of Some v \<Rightarrow> if truthy v then v else JStr ''Untitled''
                      | None \<Rightarrow> JStr ''Untitled''),
             content = (case c of Some v \<Rightarrow> if isArray v then v else JArr []
                        | None \<Rightarrow> JArr [])\<rparr>"
    by (auto simp: validatePage_def split: sum.splits)
  show ?thesis
    unfolding p by (simp add: toString_nonempty split: option.splits)
qed

lemma validatedPages_fields:
  "validatedPages clk k xs = Inr ps \<Longrightarrow>
     length ps = length xs \<and>
     list_all (\<lambda>p. truthy (pid p) \<and> truthy (title p) \<and> isArray (content p)) ps"
proof (induction xs arbitrary: k ps)
  case Nil
  then show ?case by simp
next
  case (Cons x xs)
  from Cons.prems obtain p qs where
    p: "validatePage (clk k) x = Inr p" and qs: "validatedPages clk (Suc k) xs = Inr qs"
    and ps: "ps = p # qs"
    by (auto split: sum.splits)
  from validatePage_fields [OF p] Cons.IH [OF qs] ps show ?case by simp
qed

lemma createDefault_fields [simp]:
  "pages (createDefault now s) = [createNewPage now ''Getting Started'']"
  "currentPageId (createDefault now s) = Some (JStr (toString now))"
  "localStorage (createDefault now s) = localStorage s"
  "isLoading (createDefault now s) = isLoading s"
  "console (createDefault now s) = console s"
  "pagesChanged (createDefault now s)"
  by (simp_all add: createDefault_def state_defs)

text \<open>
  The load ends in one of two ways: with the collection that the map produced, its
  first page selected, or with the default page.
\<close>

lemma load_cases:
  "(\<exists>t xs ps p. localStorage s = Some t \<and> t \<noteq> [] \<and> JSON_parse env t = Some (JArr xs) \<and>
       xs \<noteq> [] \<and> validatedPages clk 0 xs = Inr (p # ps) \<and>
       load env clk now s = setCurrentPageId (Some (pid p)) (setPages (p # ps) s)) \<or>
   (\<exists>s0. load env clk now s = createDefault now s0 \<and> localStorage s0 = localStorage s \<and>
       isLoading s0 = isLoading s)"
proof (cases "localStorage s")
  case None
  then show ?thesis by (auto simp: load_def)
next
  case (Some t)
  show ?thesis
  proof (cases "t = []")
    case True
    with Some show ?thesis by (auto simp: load_def)
  next
    case False
    show ?thesis
    proof (cases "load_try env clk t s")
      case (Inl e)
      with Some False have "load env clk now s =
          createDefault now (console_error (''Failed to parse saved pages'', e) s)"
        by (simp add: load_def)
      then show ?thesis
        by (auto simp: console_error_def intro!: exI [of _ "console_error (''Failed to parse saved pages'', e) s"])
    next
      case (Inr r)
      show ?thesis
      proof (cases r)
        case None
        with Inr Some False show ?thesis by (auto simp: load_def)
      next
        case (Some s')
        with Inr \<open>localStorage s = Some t\<close> False have l: "load env clk now s = s'"
          by (simp add: load_def)
        from Inr Some obtain xs p ps where "JSON_parse env t = Some (JArr xs)" "xs \<noteq> []"
          "validatedPages clk 0 xs = Inr (p # ps)"
          "s' = setCurrentPageId (Some (pid p)) (setPages (p # ps) s)"
          by (auto simp: load_try_def split: option.splits json.splits if_splits sum.splits list.splits)
        with l \<open>localStorage s = Some t\<close> False show ?thesis by auto
      qed
    qed
  qed
qed

lemma load_pages_fields:
  "list_all (\<lambda>p. truthy (pid p) \<and> truthy (title p) \<and> isArray (content p))
     (pages (load env clk now s))"
  using load_cases [of s env clk now]
  by (auto simp: state_defs toString_nonempty dest: validatedPages_fields)

lemma load_frame [simp]:
  "localStorage (load env clk now s) = localStorage s"
  "isLoading (load env clk now s) = isLoading s"
  using load_cases [of s env clk now] by (auto simp: state_defs)

lemma pagesChanged_load [simp]: "pagesChanged (load env clk now s)"
  using load_cases [of s env clk now] by (auto simp: state_defs)

subsection \<open>The handlers\<close>

lemma find_in_set: "find P xs = Some x \<Longrightarrow> x \<in> set xs"
  by (auto simp: find_Some_iff)

lemma pages_flushCurrent:
  "pages (flushCurrent env s) =
     (if selected s \<and> \<not> isLoading s
      then map (\<lambda>p. if Some (pid p) = currentPageId s
                     then p\<lparr>content :=
                            (case find (\<lambda>p. Some (pid p) = currentPageId s) (pages s) of
                               None \<Rightarrow> JArr []
                             | Some p \<Rightarrow> if truthy (content p) then content p else JArr [])\<rparr>
                     else p) (pages s)
      else pages s)"
  by (simp add: flushCurrent_def state_defs Let_def)

lemma flushCurrent_frame [simp]:
  "currentPageId (flushCurrent env s) = currentPageId s"
  "isLoading (flushCurrent env s) = isLoading s"
  by (simp_all add: flushCurrent_def state_defs Let_def)

lemma pages_handlePageSwitch:
  "pages (handlePageSwitch env i s) =
     (if Some i = currentPageId s then pages s else pages (flushCurrent env s))"
  by (simp add: handlePageSwitch_def state_defs Let_def)

lemma pages_addNewPage [simp]:
  "pages (addNewPage now s) = pages s @ [createNewPage now ''Untitled'']"
  by (simp add: addNewPage_def state_defs Let_def)

lemma pages_handleTitleBlur:
  "pages (handleTitleBlur v s) =
     (case currentPageId s of
        None \<Rightarrow> pages s
      | Some i \<Rightarrow> pages (updatePageTitle i (if v = [] then ''Untitled'' else v) s))"
  by (simp add: handleTitleBlur_def pages_updatePageTitle split: option.splits)

lemma pages_saveCurrentPage [simp]: "pages (saveCurrentPage env s) = pages s"
  by (simp add: saveCurrentPage_def state_defs)

lemma isLoading_handler [simp]: "isLoading (handler env e s) = isLoading s"
  by (cases e)
     (simp_all add: addNewPage_def deletePage_def updatePageTitle_def handleTitleBlur_def
        handleEditorContentChange_def handlePageSwitch_def saveCurrentPage_def state_defs
        Let_def split: option.splits)

text \<open>Only adding and deleting change the ids of the collection.\<close>

lemma map_pid_handler:
  "map pid (pages (handler env e s)) =
     (case e of
        AddNewPage now \<Rightarrow> map pid (pages s) @ [JStr (toString now)]
      | DeletePage i \<Rightarrow> filter (\<lambda>j. j \<noteq> i) (map pid (pages s))
      | _ \<Rightarrow> map pid (pages s))"
  by (cases e)
     (auto simp: pages_updatePageTitle pages_handleTitleBlur pages_handleEditorContentChange
        pages_handlePageSwitch pages_flushCurrent filter_map comp_def split: option.splits)

text \<open>A property of single pages that the handlers keep.\<close>

lemma flushed_content_isArray:
  assumes "list_all (\<lambda>p. isArray (content p)) ps"
  shows "isArray (case find P ps of None \<Rightarrow> JArr []
                  | Some p \<Rightarrow> if truthy (content p) then content p else JArr [])"
proof (cases "find P ps")
  case None
  then show ?thesis by simp
next
  case (Some p)
  then have "p \<in> set ps" by (rule find_in_set)
  with assms have "isArray (content p)" by (simp add: list_all_iff)
  with Some show ?thesis by (simp add: truthy_isArray)
qed

lemma contentIsArray_handler:
  assumes "contentIsArray (pages s)"
  shows "contentIsArray (pages (handler env e s))"
proof (cases e)
  case (PageSwitch i)
  from assms have "isArray (case find (\<lambda>p. Some (pid p) = currentPageId s) (pages s) of
      None \<Rightarrow> JArr [] | Some p \<Rightarrow> if truthy (content p) then content p else JArr [])"
    unfolding contentIsArray_def by (rule flushed_content_isArray)
  with assms PageSwitch show ?thesis
    by (auto simp: contentIsArray_def list_all_iff pages_handlePageSwitch pages_flushCurrent)
next
  case (TitleBlur v)
  with assms show ?thesis
    by (auto simp: contentIsArray_def list_all_iff pages_handleTitleBlur pages_updatePageTitle
        split: option.splits)
qed (use assms in \<open>auto simp: contentIsArray_def list_all_iff pages_updatePageTitle
       pages_handleEditorContentChange\<close>)

lemma idsNonEmpty_handler:
  assumes "idsNonEmpty (pages s)"
  shows "idsNonEmpty (pages (handler env e s))"
proof -
  have ids: "idsNonEmpty ps \<longleftrightarrow> list_all truthy (map pid ps)" for ps
    by (simp add: idsNonEmpty_def list_all_iff)
  from assms show ?thesis
    unfolding ids map_pid_handler
    by (cases e) (auto simp: list_all_iff toString_nonempty)
qed

lemma titles_handler:
  assumes "list_all (\<lambda>p. truthy (title p)) (pages s)"
  shows "list_all (\<lambda>p. truthy (title p)) (pages (handler env e s))"
  using assms
  by (cases e)
     (auto simp: list_all_iff pages_updatePageTitle pages_handleTitleBlur
        pages_handleEditorContentChange pages_handlePageSwitch pages_flushCurrent
        split: option.splits)

lemma wellFormed_parts:
  "wellFormed s \<longleftrightarrow>
     \<not> isLoading s \<and> \<not> pagesChanged s \<and> idsNonEmpty (pages s) \<and>
     list_all (\<lambda>p. truthy (title p)) (pages s) \<and> contentIsArray (pages s)"
  by (auto simp: wellFormed_def idsNonEmpty_def contentIsArray_def list_all_iff)

lemma wellFormed_dispatch:
  assumes "wellFormed s"
  shows "wellFormed (dispatch env e s)"
  using assms idsNonEmpty_handler [of s env e] titles_handler [of s env e]
    contentIsArray_handler [of s env e]
  by (simp add: wellFormed_parts dispatch_def)

lemma wellFormed_run: "wellFormed s \<Longrightarrow> wellFormed (run env es s)"
  by (induction es arbitrary: s) (simp_all add: wellFormed_dispatch)

lemma pages_mount: "pages (mount env clk now w slot) = pages (load env clk now (initial slot))"
  by (simp add: mount_def checkIfMobile_def state_defs initial_def Let_def)

lemma wellFormed_mount: "wellFormed (mount env clk now w slot)"
proof -
  have "isLoading (mount env clk now w slot) = isLoading (initial slot)"
    by (simp add: mount_def checkIfMobile_def state_defs initial_def Let_def)
  then have "\<not> isLoading (mount env clk now w slot)"
    by (simp add: initial_def)
  moreover have "\<not> pagesChanged (mount env clk now w slot)"
    by (simp add: mount_def Let_def)
  ultimately show ?thesis
    using load_pages_fields [of env clk now "initial slot"]
    by (simp add: wellFormed_def pages_mount)
qed

text \<open>Every state the mounted component reaches is well formed.\<close>

lemma wellFormed_reachable: "wellFormed (run env es (mount env clk now w slot))"
  by (rule wellFormed_run) (rule wellFormed_mount)

section \<open>The content of a page is an array\<close>

text \<open>
  C9. The content of every page is an array: of the pages that the load produces, for
  any text in the slot, of the page that \<open>createNewPage\<close> builds, and, when it holds
  of a collection, of the collection after any event (adding, deleting, renaming,
  editing, switching, losing focus). So it holds in every state the mounted component
  reaches.
\<close>

theorem content_always_array:
  "contentIsArray (pages (load env clk now s)) \<and>
   isArray (content (createNewPage now t)) \<and>
   (contentIsArray (pages s) \<longrightarrow> contentIsArray (pages (dispatch env e s))) \<and>
   contentIsArray (pages (run env es (mount env clk now w slot)))"
proof -
  have "contentIsArray (pages (load env clk now s))"
    using load_pages_fields [of env clk now s]
    by (simp add: contentIsArray_def list_all_iff)
  moreover have "contentIsArray (pages (run env es (mount env clk now w slot)))"
    using wellFormed_reachable [of env es clk now w slot] by (simp add: wellFormed_parts)
  ultimately show ?thesis
    by (simp add: dispatch_def contentIsArray_handler)
qed

text \<open>
  A persisted record that has no content is loaded with the empty array, and a
  switch away from that page keeps an array.
\<close>

theorem content_always_array_witness:
  "(let s = load example (\<lambda>k. 42) 42 (initial (Some ''[{\"title\":\"\"},{\"id\":\"7\",\"title\":\"Notes\",\"content\":[]}]''))
    in contentIsArray (pages s) \<and>
       contentIsArray (pages (dispatch example (PageSwitch (JStr ''7'')) s)) \<and>
       map content (pages (dispatch example (PageSwitch (JStr ''7'')) s)) = [JArr [], JArr []])"
  using content_always_array
    [where env = example and clk = "\<lambda>k. 42" and now = 42 and e = "PageSwitch (JStr ''7'')"
       and s = "load example (\<lambda>k. 42) 42 (initial (Some ''[{\"title\":\"\"},{\"id\":\"7\",\"title\":\"Notes\",\"content\":[]}]''))"]
  by (simp add: Let_def load_def load_try_def example_def example_parse_def validatePage_def
        initial_def state_defs dispatch_def pages_handlePageSwitch pages_flushCurrent
        selected_def toString_def digit_def)

section \<open>Ids of the pages\<close>

text \<open>
  What the code keeps of the ids. Every page has a non-empty id after any sequence of
  events that starts from a collection with non-empty ids, and every page that the
  load produces has one. Unique ids stay unique through a sequence of events in which
  every page added gets a timestamp that is not yet an id of the collection
  (\<open>freshIds\<close>); deleting, renaming, editing and switching never break uniqueness.
\<close>

lemma ids_nonempty_and_unique_when_fresh:
  "(idsNonEmpty (pages s) \<longrightarrow> idsNonEmpty (pages (run env es s))) \<and>
   idsNonEmpty (pages (load env clk now s0)) \<and>
   (idsUnique (pages s) \<and> freshIds env es s \<longrightarrow> idsUnique (pages (run env es s)))"
proof -
  have nonempty: "idsNonEmpty (pages s) \<Longrightarrow> idsNonEmpty (pages (run env es s))"
    by (induction es arbitrary: s) (simp_all add: dispatch_def idsNonEmpty_handler)
  have step: "idsUnique (pages (dispatch env e s))"
    if "idsUnique (pages s)" and "freshIds env [e] s" for e s
  proof -
    from that have "distinct (map pid (pages (handler env e s)))"
      unfolding map_pid_handler idsUnique_def by (cases e) simp_all
    then show ?thesis
      by (simp add: idsUnique_def dispatch_def)
  qed
  have unique: "idsUnique (pages s) \<Longrightarrow> freshIds env es s \<Longrightarrow> idsUnique (pages (run env es s))"
  proof (induction es arbitrary: s)
    case Nil
    then show ?case by simp
  next
    case (Cons e es)
    from Cons.prems have "freshIds env [e] s" and rest: "freshIds env es (dispatch env e s)"
      by simp_all
    with Cons.prems(1) have "idsUnique (pages (dispatch env e s))"
      by (simp add: step)
    with rest show ?case
      by (simp add: Cons.IH)
  qed
  have "idsNonEmpty (pages (load env clk now s0))"
    using load_pages_fields [of env clk now s0]
    by (simp add: idsNonEmpty_def list_all_iff)
  with nonempty unique show ?thesis by blast
qed

text \<open>
  C1. Every page is to have a unique, non-empty id: line 22 declares that the id acts
  as a UUID, the sidebar keys its rows by it and the handlers find, update and delete
  pages by it. The code takes the reading of the clock as the id and so misses
  uniqueness. The component is mounted on an empty slot at reading 41, which gives one
  page with the id 41, unique and non-empty. Two pages added at the same reading 42
  then get the same id. In the load, two persisted records without id that are read at
  the same reading get the same id as well, and two persisted records of the same id
  are loaded with it.
\<close>

theorem ids_collide_at_same_reading:
  "idsNonEmpty (pages (mount example (\<lambda>k. 0) 41 1024 None)) \<and>
   idsUnique (pages (mount example (\<lambda>k. 0) 41 1024 None)) \<and>
   map pid (pages (run example [AddNewPage 42, AddNewPage 42]
                     (mount example (\<lambda>k. 0) 41 1024 None))) =
     [JStr ''41'', JStr ''42'', JStr ''42''] \<and>
   \<not> idsUnique (pages (run example [AddNewPage 42, AddNewPage 42]
                          (mount example (\<lambda>k. 0) 41 1024 None))) \<and>
   map pid (pages (load example (\<lambda>k. 42) 42 (initial (Some ''[{},{}]'')))) =
     [JStr ''42'', JStr ''42''] \<and>
   \<not> idsUnique (pages (load example (\<lambda>k. 42) 42 (initial (Some ''[{},{}]'')))) \<and>
   \<not> idsUnique (pages (load example (\<lambda>k. 42) 42
                          (initial (Some ''[{\"id\":\"7\"},{\"id\":\"7\"}]''))))"
  by (simp add: mount_def checkIfMobile_def Let_def initial_def idsNonEmpty_def idsUnique_def
        dispatch_def load_def load_try_def createDefault_def example_def example_parse_def
        validatePage_def state_defs toString_def digit_def)

section \<open>Loading a persisted collection\<close>

lemma validatePage_not_null:
  "x \<noteq> JNull \<Longrightarrow> \<exists>p. validatePage now x = Inr p"
  by (cases x) (simp_all add: validatePage_def)

lemma validatedPages_total:
  "JNull \<notin> set xs \<Longrightarrow> \<exists>ps. validatedPages clk k xs = Inr ps"
proof (induction xs arbitrary: k)
  case Nil
  then show ?case by simp
next
  case (Cons x xs)
  then obtain p ps where "validatePage (clk k) x = Inr p" "validatedPages clk (Suc k) xs = Inr ps"
    using validatePage_not_null [of x "clk k"] by fastforce
  then show ?case by simp
qed

lemma validatedPages_nth:
  "validatedPages clk k xs = Inr ps \<Longrightarrow> n < length xs \<Longrightarrow>
     validatePage (clk (k + n)) (xs ! n) = Inr (ps ! n)"
proof (induction xs arbitrary: k ps n)
  case Nil
  then show ?case by simp
next
  case (Cons x xs)
  from Cons.prems(1) obtain p qs where
    p: "validatePage (clk k) x = Inr p" and qs: "validatedPages clk (Suc k) xs = Inr qs"
    and ps: "ps = p # qs"
    by (auto split: sum.splits)
  show ?case
  proof (cases n)
    case 0
    with p ps show ?thesis by simp
  next
    case (Suc m)
    with Cons.prems(2) have "m < length xs" by simp
    from Cons.IH [OF qs this] Suc ps show ?thesis by simp
  qed
qed

text \<open>What the callback of the map makes of one record.\<close>

lemma validatePage_normalizes:
  assumes "validatePage now x = Inr p"
  shows "((\<forall>v. getProp x ''id'' = Inr (Some v) \<longrightarrow> \<not> truthy v) \<longrightarrow> pid p = JStr (toString now)) \<and>
         (\<forall>v. getProp x ''id'' = Inr (Some v) \<and> truthy v \<longrightarrow> pid p = v) \<and>
         ((\<forall>v. getProp x ''title'' = Inr (Some v) \<longrightarrow> \<not> truthy v) \<longrightarrow> title p = JStr ''Untitled'') \<and>
         (\<forall>v. getProp x ''title'' = Inr (Some v) \<and> truthy v \<longrightarrow> title p = v) \<and>
         ((\<forall>v. getProp x ''content'' = Inr (Some v) \<longrightarrow> \<not> isArray v) \<longrightarrow> content p = JArr []) \<and>
         (\<forall>v. getProp x ''content'' = Inr (Some v) \<and> isArray v \<longrightarrow> content p = v)"
  using assms
  by (auto simp: validatePage_def split: sum.splits option.splits if_splits)

lemma load_of_array:
  assumes "localStorage s = Some t" and "t \<noteq> []" and "JSON_parse env t = Some (JArr xs)"
    and "xs \<noteq> []" and "validatedPages clk 0 xs = Inr ps"
  shows "load env clk now s = setCurrentPageId (Some (pid (ps ! 0))) (setPages ps s)"
proof -
  from assms(4,5) obtain p qs where "ps = p # qs"
    using validatedPages_fields [of clk 0 xs ps] by (cases ps) auto
  with assms show ?thesis
    by (simp add: load_def load_try_def)
qed

text \<open>
  A parsed array without \<^verbatim>\<open>null\<close>: one page for each record, in order, the first
  selected, and each field kept or replaced by its default.
\<close>

lemma load_normalizes_each:
  assumes "localStorage s = Some t" and "t \<noteq> []" and "JSON_parse env t = Some (JArr xs)"
    and "xs \<noteq> []" and "JNull \<notin> set xs"
  shows "length (pages (load env clk now s)) = length xs \<and>
         currentPageId (load env clk now s) = Some (pid (pages (load env clk now s) ! 0)) \<and>
         (\<forall>k < length xs.
            ((\<forall>v. getProp (xs ! k) ''id'' = Inr (Some v) \<longrightarrow> \<not> truthy v) \<longrightarrow>
               pid (pages (load env clk now s) ! k) = JStr (toString (clk k))) \<and>
            (\<forall>v. getProp (xs ! k) ''id'' = Inr (Some v) \<and> truthy v \<longrightarrow>
               pid (pages (load env clk now s) ! k) = v) \<and>
            ((\<forall>v. getProp (xs ! k) ''title'' = Inr (Some v) \<longrightarrow> \<not> truthy v) \<longrightarrow>
               title (pages (load env clk now s) ! k) = JStr ''Untitled'') \<and>
            (\<forall>v. getProp (xs ! k) ''title'' = Inr (Some v) \<and> truthy v \<longrightarrow>
               title (pages (load env clk now s) ! k) = v) \<and>
            ((\<forall>v. getProp (xs ! k) ''content'' = Inr (Some v) \<longrightarrow> \<not> isArray v) \<longrightarrow>
               content (pages (load env clk now s) ! k) = JArr []) \<and>
            (\<forall>v. getProp (xs ! k) ''content'' = Inr (Some v) \<and> isArray v \<longrightarrow>
               content (pages (load env clk now s) ! k) = v) \<and>
            (\<forall>i u c. xs ! k = JObj [(''id'', JStr i), (''title'', JStr u), (''content'', JArr c)] \<and>
                 i \<noteq> [] \<and> u \<noteq> [] \<longrightarrow>
               pages (load env clk now s) ! k = \<lparr>pid = JStr i, title = JStr u, content = JArr c\<rparr>))"
proof -
  from assms(5) obtain ps where ps: "validatedPages clk 0 xs = Inr ps"
    using validatedPages_total by blast
  have l: "load env clk now s = setCurrentPageId (Some (pid (ps ! 0))) (setPages ps s)"
    using assms(1-4) ps by (rule load_of_array)
  then have pages: "pages (load env clk now s) = ps"
    and cur: "currentPageId (load env clk now s) = Some (pid (ps ! 0))"
    by (simp_all add: state_defs)
  have len: "length ps = length xs"
    using validatedPages_fields [OF ps] by simp
  have rec: "validatePage (clk k) (xs ! k) = Inr (ps ! k)" if "k < length xs" for k
    using validatedPages_nth [OF ps that] by simp
  have norm:
    "((\<forall>v. getProp (xs ! k) ''id'' = Inr (Some v) \<longrightarrow> \<not> truthy v) \<longrightarrow>
        pid (ps ! k) = JStr (toString (clk k))) \<and>
     (\<forall>v. getProp (xs ! k) ''id'' = Inr (Some v) \<and> truthy v \<longrightarrow> pid (ps ! k) = v) \<and>
     ((\<forall>v. getProp (xs ! k) ''title'' = Inr (Some v) \<longrightarrow> \<not> truthy v) \<longrightarrow>
        title (ps ! k) = JStr ''Untitled'') \<and>
     (\<forall>v. getProp (xs ! k) ''title'' = Inr (Some v) \<and> truthy v \<longrightarrow> title (ps ! k) = v) \<and>
     ((\<forall>v. getProp (xs ! k) ''content'' = Inr (Some v) \<longrightarrow> \<not> isArray v) \<longrightarrow>
        content (ps ! k) = JArr []) \<and>
     (\<forall>v. getProp (xs ! k) ''content'' = Inr (Some v) \<and> isArray v \<longrightarrow> content (ps ! k) = v) \<and>
     (\<forall>i u c. xs ! k = JObj [(''id'', JStr i), (''title'', JStr u), (''content'', JArr c)] \<and>
          i \<noteq> [] \<and> u \<noteq> [] \<longrightarrow>
        ps ! k = \<lparr>pid = JStr i, title = JStr u, content = JArr c\<rparr>)"
    if k: "k < length xs" for k
  proof -
    have whole: "ps ! k = \<lparr>pid = JStr i, title = JStr u, content = JArr c\<rparr>"
      if "xs ! k = JObj [(''id'', JStr i), (''title'', JStr u), (''content'', JArr c)]"
        and "i \<noteq> []" and "u \<noteq> []" for i u c
      using rec [OF k] that by (simp add: validatePage_def)
    from validatePage_normalizes [OF rec [OF k]] whole show ?thesis
      by blast
  qed
  from len cur norm show ?thesis
    unfolding pages by blast
qed

subsection \<open>A record that is null\<close>

text \<open>
  When one element of the parsed array is \<^verbatim>\<open>null\<close>, reading its id throws inside the
  \<^verbatim>\<open>try\<close>: the error is logged and the load ends with the default page.
\<close>

lemma validatedPages_null:
  "JNull \<in> set xs \<Longrightarrow> validatedPages clk k xs = Inl TypeError"
proof (induction xs arbitrary: k)
  case Nil
  then show ?case by simp
next
  case (Cons x xs)
  show ?case
  proof (cases "x = JNull")
    case True
    then show ?thesis by (simp add: validatePage_def)
  next
    case False
    then obtain p where "validatePage (clk k) x = Inr p"
      using validatePage_not_null by blast
    moreover from False Cons.prems have "JNull \<in> set xs" by auto
    ultimately show ?thesis by (simp add: Cons.IH)
  qed
qed

lemma load_null_record:
  assumes "localStorage s = Some t" and "t \<noteq> []" and "JSON_parse env t = Some (JArr xs)"
    and "JNull \<in> set xs"
  shows "load env clk now s =
           createDefault now (console_error (''Failed to parse saved pages'', TypeError) s)"
proof -
  from assms(4) have "xs \<noteq> []" by auto
  with assms show ?thesis
    by (simp add: load_def load_try_def validatedPages_null)
qed

subsection \<open>Every record, or none\<close>

text \<open>
  C5, as the code has it. The slot holds a text that parses to a non-empty array.
  When no element of the array is \<^verbatim>\<open>null\<close>, the load produces one page for each
  record, in order, and selects the first. For the record at index \<open>k\<close>: an id that
  is missing or falsy becomes the decimal timestamp of that moment, and any other id
  is kept; a title that is missing or falsy, the empty string among them, becomes
  \<^verbatim>\<open>"Untitled"\<close>, and any other title is kept; a content that is missing or not an
  array becomes the empty array, and an array is kept; so a record with a non-empty
  id, a non-empty title and an array as content is loaded as it is. When an element
  of the array is \<^verbatim>\<open>null\<close>, no record is loaded: the \<^verbatim>\<open>catch\<close> of line 100 logs
  the TypeError and the load ends with the default page alone, selected.
\<close>

theorem load_normalizes_or_falls_back:
  assumes "localStorage s = Some t" and "t \<noteq> []" and "JSON_parse env t = Some (JArr xs)"
    and "xs \<noteq> []"
  shows "(JNull \<notin> set xs \<longrightarrow>
           length (pages (load env clk now s)) = length xs \<and>
           currentPageId (load env clk now s) = Some (pid (pages (load env clk now s) ! 0)) \<and>
           (\<forall>k < length xs.
              ((\<forall>v. getProp (xs ! k) ''id'' = Inr (Some v) \<longrightarrow> \<not> truthy v) \<longrightarrow>
                 pid (pages (load env clk now s) ! k) = JStr (toString (clk k))) \<and>
              (\<forall>v. getProp (xs ! k) ''id'' = Inr (Some v) \<and> truthy v \<longrightarrow>
                 pid (pages (load env clk now s) ! k) = v) \<and>
              ((\<forall>v. getProp (xs ! k) ''title'' = Inr (Some v) \<longrightarrow> \<not> truthy v) \<longrightarrow>
                 title (pages (load env clk now s) ! k) = JStr ''Untitled'') \<and>
              (\<forall>v. getProp (xs ! k) ''title'' = Inr (Some v) \<and> truthy v \<longrightarrow>
                 title (pages (load env clk now s) ! k) = v) \<and>
              ((\<forall>v. getProp (xs ! k) ''content'' = Inr (Some v) \<longrightarrow> \<not> isArray v) \<longrightarrow>
                 content (pages (load env clk now s) ! k) = JArr []) \<and>
              (\<forall>v. getProp (xs ! k) ''content'' = Inr (Some v) \<and> isArray v \<longrightarrow>
                 content (pages (load env clk now s) ! k) = v) \<and>
              (\<forall>i u c. xs ! k = JObj [(''id'', JStr i), (''title'', JStr u), (''content'', JArr c)] \<and>
                   i \<noteq> [] \<and> u \<noteq> [] \<longrightarrow>
                 pages (load env clk now s) ! k =
                   \<lparr>pid = JStr i, title = JStr u, content = JArr c\<rparr>))) \<and>
         (JNull \<in> set xs \<longrightarrow>
           pages (load env clk now s) = [createNewPage now ''Getting Started''] \<and>
           currentPageId (load env clk now s) = Some (JStr (toString now)) \<and>
           console (load env clk now s) =
             console s @ [(''Failed to parse saved pages'', TypeError)])"
proof (rule conjI; rule impI)
  assume "JNull \<notin> set xs"
  with assms show
    "length (pages (load env clk now s)) = length xs \<and>
     currentPageId (load env clk now s) = Some (pid (pages (load env clk now s) ! 0)) \<and>
     (\<forall>k < length xs.
        ((\<forall>v. getProp (xs ! k) ''id'' = Inr (Some v) \<longrightarrow> \<not> truthy v) \<longrightarrow>
           pid (pages (load env clk now s) ! k) = JStr (toString (clk k))) \<and>
        (\<forall>v. getProp (xs ! k) ''id'' = Inr (Some v) \<and> truthy v \<longrightarrow>
           pid (pages (load env clk now s) ! k) = v) \<and>
        ((\<forall>v. getProp (xs ! k) ''title'' = Inr (Some v) \<longrightarrow> \<not> truthy v) \<longrightarrow>
           title (pages (load env clk now s) ! k) = JStr ''Untitled'') \<and>
        (\<forall>v. getProp (xs ! k) ''title'' = Inr (Some v) \<and> truthy v \<longrightarrow>
           title (pages (load env clk now s) ! k) = v) \<and>
        ((\<forall>v. getProp (xs ! k) ''content'' = Inr (Some v) \<longrightarrow> \<not> isArray v) \<longrightarrow>
           content (pages (load env clk now s) ! k) = JArr []) \<and>
        (\<forall>v. getProp (xs ! k) ''content'' = Inr (Some v) \<and> isArray v \<longrightarrow>
           content (pages (load env clk now s) ! k) = v) \<and>
        (\<forall>i u c. xs ! k = JObj [(''id'', JStr i), (''title'', JStr u), (''content'', JArr c)] \<and>
             i \<noteq> [] \<and> u \<noteq> [] \<longrightarrow>
           pages (load env clk now s) ! k =
             \<lparr>pid = JStr i, title = JStr u, content = JArr c\<rparr>))"
    by (rule load_normalizes_each)
next
  assume "JNull \<in> set xs"
  with assms(1-3) have l: "load env clk now s =
      createDefault now (console_error (''Failed to parse saved pages'', TypeError) s)"
    by (rule load_null_record)
  show "pages (load env clk now s) = [createNewPage now ''Getting Started''] \<and>
        currentPageId (load env clk now s) = Some (JStr (toString now)) \<and>
        console (load env clk now s) =
          console s @ [(''Failed to parse saved pages'', TypeError)]"
    unfolding l by (simp add: console_error_def)
qed

text \<open>
  The slot holds a record with an empty title and nothing else, and a complete record.
  The first gets the timestamp 42 as id, the title \<^verbatim>\<open>"Untitled"\<close> and the empty
  array; the second is loaded as it is. When the slot holds a complete record and
  \<^verbatim>\<open>null\<close>, the load ends with the default page and one log entry.
\<close>

theorem load_normalizes_or_falls_back_witness:
  "(let t = ''[{\"title\":\"\"},{\"id\":\"7\",\"title\":\"Notes\",\"content\":[]}]'';
        xs = [JObj [(''title'', JStr '''')],
              JObj [(''id'', JStr ''7''), (''title'', JStr ''Notes''), (''content'', JArr [])]];
        s = load example (\<lambda>k. 42 + int k) 99 (initial (Some t));
        t' = ''[{\"id\":\"7\",\"title\":\"Notes\",\"content\":[]},null]'';
        xs' = [JObj [(''id'', JStr ''7''), (''title'', JStr ''Notes''), (''content'', JArr [])],
               JNull];
        s' = load example (\<lambda>k. 42 + int k) 99 (initial (Some t'))
    in t \<noteq> [] \<and> JSON_parse example t = Some (JArr xs) \<and> xs \<noteq> [] \<and> JNull \<notin> set xs \<and>
       (0::nat) < length xs \<and> (1::nat) < length xs \<and>
       length (pages s) = 2 \<and>
       pid (pages s ! 0) = JStr ''42'' \<and>
       title (pages s ! 0) = JStr ''Untitled'' \<and>
       content (pages s ! 0) = JArr [] \<and>
       pages s ! 1 = \<lparr>pid = JStr ''7'', title = JStr ''Notes'', content = JArr []\<rparr> \<and>
       currentPageId s = Some (JStr ''42'') \<and>
       t' \<noteq> [] \<and> JSON_parse example t' = Some (JArr xs') \<and> xs' \<noteq> [] \<and> JNull \<in> set xs' \<and>
       pages s' = [\<lparr>pid = JStr ''99'', title = JStr ''Getting Started'', content = JArr []\<rparr>] \<and>
       currentPageId s' = Some (JStr ''99'') \<and>
       console s' = [(''Failed to parse saved pages'', TypeError)])"
proof -
  let ?t = "''[{\"title\":\"\"},{\"id\":\"7\",\"title\":\"Notes\",\"content\":[]}]''"
  let ?xs = "[JObj [(''title'', JStr '''')],
              JObj [(''id'', JStr ''7''), (''title'', JStr ''Notes''), (''content'', JArr [])]]"
  let ?t' = "''[{\"id\":\"7\",\"title\":\"Notes\",\"content\":[]},null]''"
  let ?xs' = "[JObj [(''id'', JStr ''7''), (''title'', JStr ''Notes''), (''content'', JArr [])],
               JNull]"
  have slot: "localStorage (initial (Some ?t)) = Some ?t"
    and slot': "localStorage (initial (Some ?t')) = Some ?t'"
    by (simp_all add: initial_def)
  have nonempty: "?t \<noteq> []" and nonempty': "?t' \<noteq> []" by simp_all
  have parse: "JSON_parse example ?t = Some (JArr ?xs)"
    and parse': "JSON_parse example ?t' = Some (JArr ?xs')"
    by (simp_all add: example_def example_parse_def)
  have ne: "?xs \<noteq> []" and ne': "?xs' \<noteq> []" by simp_all
  from load_normalizes_or_falls_back [OF slot nonempty parse ne, of "\<lambda>k. 42 + int k" 99]
  have all: "length (pages (load example (\<lambda>k. 42 + int k) 99 (initial (Some ?t)))) = length ?xs"
    and cur: "currentPageId (load example (\<lambda>k. 42 + int k) 99 (initial (Some ?t))) =
      Some (pid (pages (load example (\<lambda>k. 42 + int k) 99 (initial (Some ?t))) ! 0))"
    and k0: "pid (pages (load example (\<lambda>k. 42 + int k) 99 (initial (Some ?t))) ! 0) = JStr (toString 42)"
      "title (pages (load example (\<lambda>k. 42 + int k) 99 (initial (Some ?t))) ! 0) = JStr ''Untitled''"
      "content (pages (load example (\<lambda>k. 42 + int k) 99 (initial (Some ?t))) ! 0) = JArr []"
    and k1: "pages (load example (\<lambda>k. 42 + int k) 99 (initial (Some ?t))) ! 1 =
      \<lparr>pid = JStr ''7'', title = JStr ''Notes'', content = JArr []\<rparr>"
    by (simp_all add: nth_Cons')
  from load_normalizes_or_falls_back [OF slot' nonempty' parse' ne', of "\<lambda>k. 42 + int k" 99]
  have null: "pages (load example (\<lambda>k. 42 + int k) 99 (initial (Some ?t'))) =
      [createNewPage 99 ''Getting Started'']"
    "currentPageId (load example (\<lambda>k. 42 + int k) 99 (initial (Some ?t'))) = Some (JStr (toString 99))"
    "console (load example (\<lambda>k. 42 + int k) 99 (initial (Some ?t'))) =
      [(''Failed to parse saved pages'', TypeError)]"
    by (simp_all add: initial_def)
  have "toString 42 = ''42''" and "toString 99 = ''99''"
    by (simp_all add: toString_def digit_def)
  with all cur k0 k1 null nonempty nonempty' parse parse' show ?thesis
    by (simp add: Let_def createNewPage_def)
qed

text \<open>
  C5 as stated fails. The slot holds a complete record followed by \<^verbatim>\<open>null\<close>; the
  text parses, to a non-empty array. The load does not normalize the record: it is
  not among the pages, which are the default page alone.
\<close>

theorem load_drops_records_counterexample:
  "JSON_parse example ''[{\"id\":\"7\",\"title\":\"Notes\",\"content\":[]},null]'' =
     Some (JArr [JObj [(''id'', JStr ''7''), (''title'', JStr ''Notes''), (''content'', JArr [])],
                 JNull]) \<and>
   pages (load example (\<lambda>k. 42 + int k) 99
            (initial (Some ''[{\"id\":\"7\",\"title\":\"Notes\",\"content\":[]},null]''))) =
     [\<lparr>pid = JStr ''99'', title = JStr ''Getting Started'', content = JArr []\<rparr>] \<and>
   \<lparr>pid = JStr ''7'', title = JStr ''Notes'', content = JArr []\<rparr> \<notin>
     set (pages (load example (\<lambda>k. 42 + int k) 99
            (initial (Some ''[{\"id\":\"7\",\"title\":\"Notes\",\"content\":[]},null]''))))"
  by (simp add: load_def load_try_def example_def example_parse_def validatePage_def
        createDefault_def createNewPage_def state_defs initial_def toString_def digit_def)

section \<open>Falling back to the default page\<close>

lemma initial_fields [simp]:
  "pages (initial slot) = []"
  "currentPageId (initial slot) = None"
  "isMobile (initial slot) = False"
  "isLoading (initial slot) = False"
  "localStorage (initial slot) = slot"
  "console (initial slot) = []"
  "pagesChanged (initial slot) = False"
  by (simp_all add: initial_def)

lemma load_try_fallback:
  assumes "JSON_parse env t = None \<or>
           (\<exists>v. JSON_parse env t = Some v \<and> (\<not> isArray v \<or> v = JArr []))"
  shows "load_try env clk t s =
           (if JSON_parse env t = None then Inl SyntaxError else Inr None)"
proof (cases "JSON_parse env t")
  case None
  then show ?thesis by (simp add: load_try_def)
next
  case (Some v)
  with assms have "\<not> isArray v \<or> v = JArr []" by simp
  with Some show ?thesis
    by (cases v) (auto simp: load_try_def)
qed

text \<open>
  C8. The slot holds a text that \<^verbatim>\<open>JSON.parse\<close> rejects, or that parses to a value
  other than a non-empty array. The exception of the parse stays inside the load:
  \<open>load_try\<close> ends with it and \<open>load\<close> returns a state. That state has the one
  default page, titled \<^verbatim>\<open>"Getting Started"\<close>, selected, and is the state that the load
  gives for an empty slot, up to the slot itself and the log. When the parse was tried
  and failed, the log has one more entry; otherwise the log is as it was.
\<close>

theorem load_falls_back_to_default:
  assumes "localStorage s = Some t"
    and "JSON_parse env t = None \<or>
         (\<exists>v. JSON_parse env t = Some v \<and> (\<not> isArray v \<or> v = JArr []))"
  shows "pages (load env clk now s) = [createNewPage now ''Getting Started''] \<and>
         title (createNewPage now ''Getting Started'') = JStr ''Getting Started'' \<and>
         currentPageId (load env clk now s) = Some (pid (createNewPage now ''Getting Started'')) \<and>
         load env clk now s =
           (load env clk now (s\<lparr>localStorage := None\<rparr>))
             \<lparr>localStorage := Some t, console := console (load env clk now s)\<rparr> \<and>
         (t \<noteq> [] \<and> JSON_parse env t = None \<longrightarrow>
            load_try env clk t s = Inl SyntaxError \<and>
            console (load env clk now s) =
              console s @ [(''Failed to parse saved pages'', SyntaxError)]) \<and>
         (t = [] \<or> JSON_parse env t \<noteq> None \<longrightarrow> console (load env clk now s) = console s)"
proof (cases "t = []")
  case True
  with assms(1) show ?thesis
    by (simp add: load_def createDefault_def state_defs)
next
  case False
  note fallback = load_try_fallback [OF assms(2), of clk s]
  show ?thesis
  proof (cases "JSON_parse env t")
    case None
    with assms(1) False fallback show ?thesis
      by (simp add: load_def createDefault_def state_defs)
  next
    case (Some v)
    with assms(1) False fallback show ?thesis
      by (simp add: load_def createDefault_def state_defs)
  qed
qed

text \<open>
  A text that is no JSON is logged and replaced by the default page; the text
  \<^verbatim>\<open>{}\<close> parses to an object, which is no array, and gives the default page without
  a log entry.
\<close>

theorem load_falls_back_to_default_witness:
  "JSON_parse example ''not json'' = None \<and>
   pages (load example (\<lambda>k. 0) 42 (initial (Some ''not json''))) =
     [\<lparr>pid = JStr ''42'', title = JStr ''Getting Started'', content = JArr []\<rparr>] \<and>
   currentPageId (load example (\<lambda>k. 0) 42 (initial (Some ''not json''))) = Some (JStr ''42'') \<and>
   console (load example (\<lambda>k. 0) 42 (initial (Some ''not json''))) =
     [(''Failed to parse saved pages'', SyntaxError)] \<and>
   JSON_parse example ''{}'' = Some (JObj []) \<and>
   pages (load example (\<lambda>k. 0) 42 (initial (Some ''{}''))) =
     [\<lparr>pid = JStr ''42'', title = JStr ''Getting Started'', content = JArr []\<rparr>] \<and>
   console (load example (\<lambda>k. 0) 42 (initial (Some ''{}''))) = []"
proof -
  have p1: "JSON_parse example ''not json'' = None"
    and p2: "JSON_parse example ''{}'' = Some (JObj [])"
    by (simp_all add: example_def example_parse_def)
  have h1: "JSON_parse example ''not json'' = None \<or>
      (\<exists>v. JSON_parse example ''not json'' = Some v \<and> (\<not> isArray v \<or> v = JArr []))"
    using p1 by simp
  have h2: "JSON_parse example ''{}'' = None \<or>
      (\<exists>v. JSON_parse example ''{}'' = Some v \<and> (\<not> isArray v \<or> v = JArr []))"
    using p2 by simp
  have s1: "localStorage (initial (Some ''not json'')) = Some ''not json''"
    and s2: "localStorage (initial (Some ''{}'')) = Some ''{}''"
    by (simp_all add: initial_def)
  have ts: "toString 42 = ''42''"
    by (simp add: toString_def digit_def)
  from load_falls_back_to_default [OF s1 h1, of "\<lambda>k. 0" 42]
    load_falls_back_to_default [OF s2 h2, of "\<lambda>k. 0" 42] p1 p2 ts
  show ?thesis
    by (simp add: createNewPage_def initial_def)
qed

section \<open>Loading the empty array\<close>

text \<open>
  C3, as the code has it. The slot holds the text \<^verbatim>\<open>[]\<close>, which parses to the empty
  array. The load creates one page, titled \<^verbatim>\<open>"Getting Started"\<close> and with empty
  content, and selects it; the load itself writes nothing, and the save of the first
  render, which still sees the empty collection, writes nothing either. The render
  that commits the collection of the load then runs the save of lines 111 to 114
  again, and that writes the one-page collection into the slot: after mounting, with
  no further event, the slot holds the default page. Every later event that sets the
  collection and leaves it non-empty writes the whole collection.
\<close>

theorem load_empty_array_default_page:
  assumes "JSON_parse env ''[]'' = Some (JArr [])"
  shows "pages (load env clk now (initial (Some ''[]''))) =
           [\<lparr>pid = JStr (toString now), title = JStr ''Getting Started'', content = JArr []\<rparr>] \<and>
         currentPageId (load env clk now (initial (Some ''[]''))) = Some (JStr (toString now)) \<and>
         localStorage (load env clk now (initial (Some ''[]''))) = Some ''[]'' \<and>
         saveToLocalStorage env (pages (initial (Some ''[]'')))
             (load env clk now (initial (Some ''[]''))) =
           load env clk now (initial (Some ''[]'')) \<and>
         pages (mount env clk now w (Some ''[]'')) =
           pages (load env clk now (initial (Some ''[]''))) \<and>
         currentPageId (mount env clk now w (Some ''[]'')) = Some (JStr (toString now)) \<and>
         localStorage (mount env clk now w (Some ''[]'')) =
           Some (JSON_stringify env (pages (load env clk now (initial (Some ''[]''))))) \<and>
         (pagesChanged (handler env e s) \<and> pages (dispatch env e s) \<noteq> [] \<longrightarrow>
            localStorage (dispatch env e s) = Some (JSON_stringify env (pages (dispatch env e s))))"
proof -
  have slot: "localStorage (initial (Some ''[]'')) = Some ''[]''"
    by (simp add: initial_def)
  have "JSON_parse env ''[]'' = None \<or>
      (\<exists>v. JSON_parse env ''[]'' = Some v \<and> (\<not> isArray v \<or> v = JArr []))"
    using assms by simp
  from load_try_fallback [OF this, of clk "initial (Some ''[]'')"] assms
  have l: "load env clk now (initial (Some ''[]'')) = createDefault now (initial (Some ''[]''))"
    by (simp add: load_def slot)
  have later: "localStorage (dispatch env e s) = Some (JSON_stringify env (pages (dispatch env e s)))"
    if "pagesChanged (handler env e s)" and "pages (dispatch env e s) \<noteq> []"
    using that by (simp add: dispatch_def localStorage_commit)
  show ?thesis
    using later
    by (simp add: mount_def l createDefault_def createNewPage_def checkIfMobile_def state_defs
          Let_def)
qed

theorem load_empty_array_default_page_witness:
  "JSON_parse example ''[]'' = Some (JArr []) \<and>
   pages (load example (\<lambda>k. 0) 42 (initial (Some ''[]''))) =
     [\<lparr>pid = JStr ''42'', title = JStr ''Getting Started'', content = JArr []\<rparr>] \<and>
   localStorage (load example (\<lambda>k. 0) 42 (initial (Some ''[]''))) = Some ''[]'' \<and>
   localStorage (mount example (\<lambda>k. 0) 42 1024 (Some ''[]'')) =
     Some (JSON_stringify example
       [\<lparr>pid = JStr ''42'', title = JStr ''Getting Started'', content = JArr []\<rparr>])"
proof -
  have p: "JSON_parse example ''[]'' = Some (JArr [])"
    by (simp add: example_def example_parse_def)
  have ts: "toString 42 = ''42''"
    by (simp add: toString_def digit_def)
  from load_empty_array_default_page [OF p, of "\<lambda>k. 0" 42 1024] p ts
  show ?thesis by simp
qed

text \<open>
  C3 as stated fails. The slot holds \<^verbatim>\<open>[]\<close> and the component is mounted, at clock
  reading 42 and window width 1024. No event follows, and the slot no longer holds
  \<^verbatim>\<open>[]\<close>: it holds the default page.
\<close>

theorem load_empty_array_counterexample:
  "JSON_parse example ''[]'' = Some (JArr []) \<and>
   localStorage (mount example (\<lambda>k. 0) 42 1024 (Some ''[]'')) \<noteq> Some ''[]'' \<and>
   localStorage (mount example (\<lambda>k. 0) 42 1024 (Some ''[]'')) =
     Some ''[{\"id\":\"42\",\"title\":\"Getting Started\",\"content\":[]}]''"
  by (simp add: mount_def load_def load_try_def example_def example_parse_def createDefault_def
        createNewPage_def checkIfMobile_def state_defs initial_def Let_def show_page_def
        toString_def digit_def)

section \<open>Switching pages\<close>

lemma find_selected:
  "find P xs = Some x \<Longrightarrow> P x \<and> x \<in> set xs"
  by (auto simp: find_Some_iff)

text \<open>What the flush of \<open>handlePageSwitch\<close> does when a page of the collection is selected.\<close>

lemma flushCurrent_selected:
  assumes "wellFormed s" and "currentPageId s = Some a"
    and "find (\<lambda>p. pid p = a) (pages s) = Some A"
  shows "flushCurrent env s =
           (let updatedPages = map (\<lambda>p. if pid p = a then p\<lparr>content := content A\<rparr> else p) (pages s)
            in s\<lparr>pages := updatedPages, pagesChanged := True,
                 localStorage := Some (JSON_stringify env updatedPages)\<rparr>)"
proof -
  from assms(3) have A: "pid A = a" "A \<in> set (pages s)"
    by (auto dest: find_selected)
  with assms(1) have "truthy a" and "isArray (content A)" and "\<not> isLoading s"
    by (auto simp: wellFormed_def list_all_iff)
  then have "selected s" and "truthy (content A)"
    using assms(2) by (simp_all add: selected_def truthy_isArray)
  moreover from A have "pages s \<noteq> []" by auto
  ultimately show ?thesis
    using assms(2,3) \<open>\<not> isLoading s\<close>
    by (simp add: flushCurrent_def state_defs Let_def)
qed

lemma map_selected_unique:
  assumes "distinct (map pid ps)" and "A \<in> set ps"
  shows "map (\<lambda>p. if pid p = pid A then p\<lparr>content := content A\<rparr> else p) ps = ps"
proof (rule map_idI)
  fix p assume p: "p \<in> set ps"
  from assms(1) have "inj_on pid (set ps)"
    by (simp add: distinct_map)
  then have "p = A" if "pid p = pid A"
    using that p assms(2) by (auto dest: inj_onD)
  then show "(if pid p = pid A then p\<lparr>content := content A\<rparr> else p) = p"
    by auto
qed

text \<open>
  C2. In a well-formed state (every state the mounted component reaches is one) a
  page \<open>A\<close> of the collection is selected, with id \<open>a\<close>. For a target \<open>b\<close> other than
  \<open>a\<close>, the handler first flushes: after \<open>flushCurrent\<close> the page of id \<open>a\<close> is
  \<open>A\<close> with its content, the slot holds the whole collection, and \<open>a\<close> is still
  selected. The state the handler returns is that flushed state with the selection set
  to \<open>b\<close> (and the sidebar closed on a mobile screen), so the slot holds the content
  of \<open>A\<close> when \<open>b\<close> becomes selected, and it still does after the render that
  follows. With unique ids the switch leaves the collection as it was. For the target
  \<open>a\<close> itself the handler and the event return the state they were given.
\<close>

theorem handlePageSwitch_flushes_then_selects:
  assumes "wellFormed s" and "currentPageId s = Some a"
    and "find (\<lambda>p. pid p = a) (pages s) = Some A"
  shows "(b \<noteq> a \<longrightarrow>
            find (\<lambda>p. pid p = a) (pages (flushCurrent env s)) = Some A \<and>
            localStorage (flushCurrent env s) =
              Some (JSON_stringify env (pages (flushCurrent env s))) \<and>
            currentPageId (flushCurrent env s) = Some a \<and>
            handlePageSwitch env b s =
              (if isMobile s
               then setSidebarOpen False (setCurrentPageId (Some b) (flushCurrent env s))
               else setCurrentPageId (Some b) (flushCurrent env s)) \<and>
            currentPageId (dispatch env (PageSwitch b) s) = Some b \<and>
            pages (dispatch env (PageSwitch b) s) = pages (flushCurrent env s) \<and>
            localStorage (dispatch env (PageSwitch b) s) =
              Some (JSON_stringify env (pages (flushCurrent env s))) \<and>
            (idsUnique (pages s) \<longrightarrow> pages (dispatch env (PageSwitch b) s) = pages s)) \<and>
         handlePageSwitch env a s = s \<and>
         dispatch env (PageSwitch a) s = s"
proof -
  let ?ps = "map (\<lambda>p. if pid p = a then p\<lparr>content := content A\<rparr> else p) (pages s)"
  have flush: "flushCurrent env s =
      s\<lparr>pages := ?ps, pagesChanged := True, localStorage := Some (JSON_stringify env ?ps)\<rparr>"
    using flushCurrent_selected [OF assms, of env] by (simp add: Let_def)
  from assms(3) have A: "pid A = a" "A \<in> set (pages s)"
    by (auto dest: find_selected)
  then have nonempty: "?ps \<noteq> []" by auto
  have found: "find (\<lambda>p. pid p = a) ?ps = Some A"
    using assms(3) by (simp add: find_map_same_id)
  have unique: "?ps = pages s" if "idsUnique (pages s)"
    using map_selected_unique [of "pages s" A] that A by (simp add: idsUnique_def)
  have same: "handlePageSwitch env a s = s"
    using assms(2) by (simp add: handlePageSwitch_def)
  moreover from assms(1) have "\<not> pagesChanged s"
    by (simp add: wellFormed_def)
  ultimately have event: "dispatch env (PageSwitch a) s = s"
    by (simp add: dispatch_def commit_quiescent)
  have switch: "handlePageSwitch env b s =
      (if isMobile s
       then setSidebarOpen False (setCurrentPageId (Some b) (flushCurrent env s))
       else setCurrentPageId (Some b) (flushCurrent env s))" if "b \<noteq> a"
    using that assms(2) by (simp add: handlePageSwitch_def Let_def)
  show ?thesis
    using found nonempty unique same event switch
    by (simp add: flush dispatch_def state_defs assms(2))
qed

text \<open>
  Two pages with ids 1 and 2, the first selected and edited. The switch to the second
  leaves the edited content in the collection and in the slot, and selects the second.
\<close>

theorem handlePageSwitch_flushes_then_selects_witness:
  "(let A = \<lparr>pid = JStr ''1'', title = JStr ''a'', content = JArr [JStr ''block'']\<rparr>;
        B = \<lparr>pid = JStr ''2'', title = JStr ''b'', content = JArr []\<rparr>;
        s = (initial None)\<lparr>pages := [A, B], currentPageId := Some (JStr ''1'')\<rparr>;
        s' = dispatch example (PageSwitch (JStr ''2'')) s
    in wellFormed s \<and> find (\<lambda>p. pid p = JStr ''1'') (pages s) = Some A \<and>
       JStr ''2'' \<noteq> JStr ''1'' \<and> idsUnique (pages s) \<and>
       currentPageId (flushCurrent example s) = Some (JStr ''1'') \<and>
       localStorage (flushCurrent example s) = Some (JSON_stringify example [A, B]) \<and>
       currentPageId s' = Some (JStr ''2'') \<and> pages s' = [A, B] \<and>
       localStorage s' = Some (JSON_stringify example [A, B]) \<and>
       dispatch example (PageSwitch (JStr ''1'')) s = s)"
proof -
  let ?A = "\<lparr>pid = JStr ''1'', title = JStr ''a'', content = JArr [JStr ''block'']\<rparr>"
  let ?B = "\<lparr>pid = JStr ''2'', title = JStr ''b'', content = JArr []\<rparr>"
  let ?s = "(initial None)\<lparr>pages := [?A, ?B], currentPageId := Some (JStr ''1'')\<rparr>"
  have wf: "wellFormed ?s"
    by (simp add: wellFormed_def)
  have cur: "currentPageId ?s = Some (JStr ''1'')"
    by simp
  have found: "find (\<lambda>p. pid p = JStr ''1'') (pages ?s) = Some ?A"
    by simp
  have uniq: "idsUnique (pages ?s)"
    by (simp add: idsUnique_def)
  from handlePageSwitch_flushes_then_selects [OF wf cur found, of "JStr ''2''" example]
    wf found uniq
  show ?thesis
    by (simp add: Let_def pages_flushCurrent selected_def)
qed

end
